theory Spec2Isabelle
  imports Complex_Main
begin

section \<open>The decimal library: values of \<^verbatim>\<open>bignumber.js\<close>\<close>

text \<open>
  Every quantity of \<^verbatim>\<open>src/math/swap.ts\<close> and \<^verbatim>\<open>src/math/liquidity.ts\<close> is a
  \<^verbatim>\<open>BigNumber\<close>: an exact base-10 decimal, or one of the three values
  \<^verbatim>\<open>NaN\<close>, \<^verbatim>\<open>Infinity\<close>, \<^verbatim>\<open>-Infinity\<close>. A finite value is modelled by the
  rational number it denotes. The library keeps a sign on zero; every comparison of the
  library takes \<^verbatim>\<open>-0\<close> and \<^verbatim>\<open>0\<close> as equal, and the model has one zero.

  The library is used with its default configuration: \<^verbatim>\<open>DECIMAL_PLACES = 20\<close> and
  \<^verbatim>\<open>ROUNDING_MODE = ROUND_HALF_UP\<close>. Addition, subtraction and multiplication are
  exact; division and square root are rounded to \<^verbatim>\<open>DECIMAL_PLACES\<close> with
  \<^verbatim>\<open>ROUNDING_MODE\<close>; \<^verbatim>\<open>dp(n)\<close> rounds with \<^verbatim>\<open>ROUNDING_MODE\<close> and
  \<^verbatim>\<open>dp(n, rm)\<close> with the mode \<^verbatim>\<open>rm\<close>.
\<close>

datatype bignumber = NaN | Infinity bool | Fin rat
  \<comment> \<open>\<open>Infinity True\<close> is \<^verbatim>\<open>-Infinity\<close>: the flag is the sign bit.\<close>

datatype rounding_mode = ROUND_FLOOR | ROUND_HALF_UP

definition DECIMAL_PLACES :: nat where
  "DECIMAL_PLACES = 20"

definition ROUNDING_MODE :: rounding_mode where
  "ROUNDING_MODE = ROUND_HALF_UP"

text \<open>
  Rounding a rational to \<open>n\<close> decimal places. \<^verbatim>\<open>ROUND_FLOOR\<close> rounds towards
  \<^verbatim>\<open>-Infinity\<close>; \<^verbatim>\<open>ROUND_HALF_UP\<close> rounds to the nearest neighbour and, when
  both are equally near, away from zero.
\<close>

definition half_up :: "rat \<Rightarrow> int" where
  "half_up x = (if 0 \<le> x then \<lfloor>x + 1 / 2\<rfloor> else - \<lfloor>- x + 1 / 2\<rfloor>)"

definition round_rat :: "rounding_mode \<Rightarrow> nat \<Rightarrow> rat \<Rightarrow> rat" where
  "round_rat rm n x =
     (case rm of
        ROUND_FLOOR \<Rightarrow> of_int \<lfloor>x * 10 ^ n\<rfloor> / 10 ^ n
      | ROUND_HALF_UP \<Rightarrow> of_int (half_up (x * 10 ^ n)) / 10 ^ n)"

fun isNaN :: "bignumber \<Rightarrow> bool" where
  "isNaN NaN = True"
| "isNaN _ = False"

fun isZero :: "bignumber \<Rightarrow> bool" where
  "isZero (Fin x) = (x = 0)"
| "isZero _ = False"

fun isNegative :: "bignumber \<Rightarrow> bool" where
  "isNegative (Fin x) = (x < 0)"
| "isNegative (Infinity s) = s"
| "isNegative NaN = False"

fun negated :: "bignumber \<Rightarrow> bignumber" where
  "negated NaN = NaN"
| "negated (Infinity s) = Infinity (\<not> s)"
| "negated (Fin x) = Fin (- x)"

fun plus :: "bignumber \<Rightarrow> bignumber \<Rightarrow> bignumber" where
  "plus NaN _ = NaN"
| "plus _ NaN = NaN"
| "plus (Infinity s) (Infinity t) = (if s = t then Infinity s else NaN)"
| "plus (Infinity s) (Fin _) = Infinity s"
| "plus (Fin _) (Infinity t) = Infinity t"
| "plus (Fin x) (Fin y) = Fin (x + y)"

definition minus :: "bignumber \<Rightarrow> bignumber \<Rightarrow> bignumber" where
  "minus a b = plus a (negated b)"

fun multipliedBy :: "bignumber \<Rightarrow> bignumber \<Rightarrow> bignumber" where
  "multipliedBy NaN _ = NaN"
| "multipliedBy _ NaN = NaN"
| "multipliedBy (Infinity s) b = (if isZero b then NaN else Infinity (s \<noteq> isNegative b))"
| "multipliedBy a (Infinity t) = (if isZero a then NaN else Infinity (isNegative a \<noteq> t))"
| "multipliedBy (Fin x) (Fin y) = Fin (x * y)"

text \<open>
  Division: \<^verbatim>\<open>NaN\<close> for \<^verbatim>\<open>0 / 0\<close> and for two infinities, an infinity for a
  non-zero dividend over zero, zero for a finite dividend over an infinity, and otherwise the
  quotient rounded to \<^verbatim>\<open>DECIMAL_PLACES\<close>.
\<close>

fun dividedBy :: "bignumber \<Rightarrow> bignumber \<Rightarrow> bignumber" where
  "dividedBy NaN _ = NaN"
| "dividedBy _ NaN = NaN"
| "dividedBy (Infinity s) (Infinity t) = NaN"
| "dividedBy (Infinity s) (Fin y) = Infinity (s \<noteq> (y < 0))"
| "dividedBy (Fin x) (Infinity t) = Fin 0"
| "dividedBy (Fin x) (Fin y) =
     (if y = 0 then (if x = 0 then NaN else Infinity (x < 0))
      else Fin (round_rat ROUNDING_MODE DECIMAL_PLACES (x / y)))"

text \<open>
  The integer square root, by halving the number of binary digits: the largest \<open>r\<close>
  with \<open>r * r \<le> n\<close>.
\<close>

fun isqrt :: "nat \<Rightarrow> nat" where
  "isqrt n =
     (if n < 2 then n
      else let r = 2 * isqrt (n div 4)
           in if (r + 1) * (r + 1) \<le> n then r + 1 else r)"

declare isqrt.simps [simp del]

text \<open>
  \<^verbatim>\<open>sqrt()\<close> is correctly rounded to \<^verbatim>\<open>DECIMAL_PLACES\<close> with
  \<^verbatim>\<open>ROUND_HALF_UP\<close>: the result is \<open>k / 10 ^ 20\<close> for
  \<open>k = \<lfloor>sqrt x * 10 ^ 20 + 1 / 2\<rfloor> = (\<lfloor>sqrt (4 * x * 10 ^ 40)\<rfloor> + 1) div 2\<close>.
\<close>

fun sqrt_bn :: "bignumber \<Rightarrow> bignumber" where
  "sqrt_bn NaN = NaN"
| "sqrt_bn (Infinity s) = (if s then NaN else Infinity False)"
| "sqrt_bn (Fin x) =
     (if x < 0 then NaN
      else Fin (of_nat ((isqrt (nat \<lfloor>4 * x * 10 ^ (2 * DECIMAL_PLACES)\<rfloor>) + 1) div 2)
                / 10 ^ DECIMAL_PLACES))"

fun dp_mode :: "bignumber \<Rightarrow> nat \<Rightarrow> rounding_mode \<Rightarrow> bignumber" where
  "dp_mode (Fin x) n rm = Fin (round_rat rm n x)"
| "dp_mode a n rm = a"

definition dp :: "bignumber \<Rightarrow> nat \<Rightarrow> bignumber" where
  "dp a n = dp_mode a n ROUNDING_MODE"

fun isGreaterThanOrEqualTo :: "bignumber \<Rightarrow> bignumber \<Rightarrow> bool" where
  "isGreaterThanOrEqualTo NaN _ = False"
| "isGreaterThanOrEqualTo _ NaN = False"
| "isGreaterThanOrEqualTo (Infinity s) (Infinity t) = (if s then t else True)"
| "isGreaterThanOrEqualTo (Infinity s) (Fin _) = (\<not> s)"
| "isGreaterThanOrEqualTo (Fin _) (Infinity t) = t"
| "isGreaterThanOrEqualTo (Fin x) (Fin y) = (y \<le> x)"

definition isLessThanOrEqualTo :: "bignumber \<Rightarrow> bignumber \<Rightarrow> bool" where
  "isLessThanOrEqualTo a b = isGreaterThanOrEqualTo b a"

definition isLessThan :: "bignumber \<Rightarrow> bignumber \<Rightarrow> bool" where
  "isLessThan a b = (\<not> isNaN a \<and> \<not> isNaN b \<and> \<not> isGreaterThanOrEqualTo a b)"

text \<open>\<^verbatim>\<open>BigNumber.min\<close> of two values: \<^verbatim>\<open>NaN\<close> when one of them is.\<close>

definition min_bn :: "bignumber \<Rightarrow> bignumber \<Rightarrow> bignumber" where
  "min_bn a b =
     (if isNaN a \<or> isNaN b then NaN
      else if isGreaterThanOrEqualTo a b then b else a)"

section \<open>The helpers of \<^verbatim>\<open>src/utils\<close>\<close>

text \<open>
  The numeric arguments (\<^verbatim>\<open>Types.Number\<close>, \<^verbatim>\<open>Types.Amount\<close>) are modelled by
  the value they denote, \<^verbatim>\<open>NaN\<close> when they denote none; a decimals count
  (\<^verbatim>\<open>Types.Decimals\<close>) is a natural number.
\<close>

definition toBigNumber :: "bignumber \<Rightarrow> bignumber" where
  \<comment> \<open>Modelled from the spec: \<^verbatim>\<open>toBigNumber\<close> is not among the sources. It parses a
      numeric-like value into a decimal; \<^verbatim>\<open>getPriceImpact\<close> tests its result with
      \<^verbatim>\<open>isNaN()\<close>, so a value that is no number is passed on as \<^verbatim>\<open>NaN\<close>.\<close>
  "toBigNumber x = x"

definition exponential :: "nat \<Rightarrow> bignumber" where
  \<comment> \<open>Modelled from the spec: \<^verbatim>\<open>exponential\<close> is not among the sources;
      \<^verbatim>\<open>exponential(n) = 10^n\<close>.\<close>
  "exponential n = Fin (10 ^ n)"

definition removeDecimals :: "bignumber \<Rightarrow> nat \<Rightarrow> bignumber" where
  \<comment> \<open>Modelled from the spec: \<^verbatim>\<open>removeDecimals\<close> is not among the sources;
      \<^verbatim>\<open>removeDecimals(amount, decimals) = amount / 10^decimals\<close>, an exact division by
      a power of ten with no rounding.\<close>
  "removeDecimals amount decimals =
     (case toBigNumber amount of Fin x \<Rightarrow> Fin (x / 10 ^ decimals) | a \<Rightarrow> a)"

definition applyDecimals :: "bignumber \<Rightarrow> nat \<Rightarrow> bignumber" where
  \<comment> \<open>Modelled from the spec: \<^verbatim>\<open>applyDecimals\<close> is not among the sources;
      \<^verbatim>\<open>applyDecimals(amount, decimals) = round(amount * 10^decimals)\<close>, rounded to an
      integer with the default rounding of the decimal library.\<close>
  "applyDecimals amount decimals =
     dp (multipliedBy (toBigNumber amount) (exponential decimals)) 0"

text \<open>
  Where the code looks at an argument before converting it, the argument is a JS value. The
  declaration of \<^verbatim>\<open>Types.Number\<close> is not among the sources; the values are those a
  numeric-like argument can be: a number, a bigint, a string or a \<^verbatim>\<open>BigNumber\<close>
  object. A number is given by its value, and so is a non-empty string, by the value that the
  conversion reads from it (\<^verbatim>\<open>NaN\<close> when it is no numeral). In a boolean context the
  numbers \<^verbatim>\<open>0\<close> and \<^verbatim>\<open>NaN\<close>, the bigint \<^verbatim>\<open>0n\<close> and the empty string are
  falsy; every other string and every object is truthy, the string \<^verbatim>\<open>'0'\<close> and the object
  \<^verbatim>\<open>new BigNumber(0)\<close> among them.
\<close>

datatype js_value =
    JsNumber bignumber
  | JsBigInt int
  | JsString bignumber
  | JsEmptyString
  | JsBigNumber bignumber

fun truthy :: "js_value \<Rightarrow> bool" where
  "truthy (JsNumber v) = (if isZero v \<or> isNaN v then False else True)"
| "truthy (JsBigInt n) = (if n = 0 then False else True)"
| "truthy (JsString v) = True"
| "truthy JsEmptyString = False"
| "truthy (JsBigNumber v) = True"

fun jsValue :: "js_value \<Rightarrow> bignumber" where
  "jsValue (JsNumber v) = v"
| "jsValue (JsBigInt n) = Fin (of_int n)"
| "jsValue (JsString v) = v"
| "jsValue JsEmptyString = NaN"
| "jsValue (JsBigNumber v) = v"

section \<open>\<^verbatim>\<open>src/math/liquidity.ts\<close>\<close>

definition MINIMUM_LIQUIDITY :: bignumber where
  "MINIMUM_LIQUIDITY = exponential 3"

text \<open>
  \<^verbatim>\<open>toNumber()\<close> yields a JS number; the model keeps the value, which is exact for the
  integers below \<open>2 ^ 53\<close>.
\<close>

definition getPairDecimals :: "nat \<Rightarrow> nat \<Rightarrow> bignumber" where
  "getPairDecimals token0Decimals token1Decimals =
     dp_mode
       (dividedBy (plus (toBigNumber (Fin (of_nat token0Decimals))) (Fin (of_nat token1Decimals)))
          (Fin 2))
       0 ROUND_FLOOR"

record GetAddPositionParams =
  token0Amount :: bignumber
  token1Amount :: bignumber
  token0Decimals :: nat
  token1Decimals :: nat
  reserve0 :: bignumber
  reserve1 :: bignumber
  totalSupply :: bignumber

text \<open>
  Lines 44 to 61 of \<^verbatim>\<open>getAddPosition\<close>: the amounts \<open>(amount0, amount1)\<close> credited
  for the desired ones.
\<close>

definition creditedAmounts ::
  "bignumber \<Rightarrow> bignumber \<Rightarrow> bignumber \<Rightarrow> bignumber \<Rightarrow> bignumber \<times> bignumber" where
  "creditedAmounts amount0Desired amount1Desired r0 r1 =
     (if isZero r0 \<and> isZero r1 then (amount0Desired, amount1Desired)
      else
        let amount1Optimal = dividedBy (multipliedBy amount0Desired r1) r0
        in if isGreaterThanOrEqualTo amount1Desired amount1Optimal
           then (amount0Desired, amount1Optimal)
           else
             let amount0Optimal = dividedBy (multipliedBy amount1Desired r0) r1
             in (amount0Optimal, amount1Desired))"

definition getAddPosition :: "GetAddPositionParams \<Rightarrow> bignumber" where
  "getAddPosition params =
     (let amount0Desired = removeDecimals (token0Amount params) (token0Decimals params);
          amount1Desired = removeDecimals (token1Amount params) (token1Decimals params);
          r0 = toBigNumber (reserve0 params);
          r1 = toBigNumber (reserve1 params);
          ts = toBigNumber (totalSupply params);
          (amount0, amount1) = creditedAmounts amount0Desired amount1Desired r0 r1;
          lp = (if isZero ts
                then minus (sqrt_bn (multipliedBy amount0 amount1)) MINIMUM_LIQUIDITY
                else
                  let one = dividedBy (multipliedBy amount0 ts) r0;
                      two = dividedBy (multipliedBy amount1 ts) r1
                  in min_bn one two)
      in dp lp 0)"

definition getAddPercentage :: "GetAddPositionParams \<Rightarrow> bignumber" where
  "getAddPercentage params =
     (let ts = toBigNumber (totalSupply params)
      in if isZero ts then Fin 1
         else
           let lp = getAddPosition params;
               percentage = dividedBy lp (plus lp ts)
           in percentage)"

text \<open>
  \<^verbatim>\<open>Pair.Model\<close> is declared outside the sources; \<^verbatim>\<open>getTokenBalances\<close> reads
  its three fields \<^verbatim>\<open>reserve0\<close>, \<^verbatim>\<open>reserve1\<close> and \<^verbatim>\<open>totalSupply\<close>.
\<close>

record Pair_Model =
  reserve0_pair :: bignumber
  reserve1_pair :: bignumber
  totalSupply_pair :: bignumber

record GetTokenBalancesResult =
  token0 :: bignumber
  token1 :: bignumber

definition getTokenBalances :: "Pair_Model \<Rightarrow> bignumber \<Rightarrow> GetTokenBalancesResult" where
  "getTokenBalances pair lpBalance =
     (let balancePercentage =
            dividedBy (toBigNumber lpBalance) (toBigNumber (totalSupply_pair pair));
          token0Balance = dp (multipliedBy (toBigNumber (reserve0_pair pair)) balancePercentage) 0;
          token1Balance = dp (multipliedBy (toBigNumber (reserve1_pair pair)) balancePercentage) 0
      in \<lparr>token0 = token0Balance, token1 = token1Balance\<rparr>)"

text \<open>
  The total of the token0 balances that \<^verbatim>\<open>getTokenBalances\<close> returns for a list of
  LP balances of one pair, added up with \<^verbatim>\<open>plus\<close>.
\<close>

fun token0Total :: "Pair_Model \<Rightarrow> bignumber list \<Rightarrow> bignumber" where
  "token0Total pair [] = Fin 0"
| "token0Total pair (lp # lps) = plus (token0 (getTokenBalances pair lp)) (token0Total pair lps)"

section \<open>\<^verbatim>\<open>src/math/swap.ts\<close>\<close>

definition DEFAULT_FEE :: bignumber where
  "DEFAULT_FEE = Fin (3 / 1000)"

record GetAmountOutParams =
  amountIn :: bignumber
  decimalsIn :: nat
  decimalsOut :: nat
  reserveIn :: bignumber
  reserveOut :: bignumber
  fee :: "js_value option"

text \<open>
  \<^verbatim>\<open>params.fee || this.DEFAULT_FEE\<close> tests the raw JS value of the fee, before any
  conversion: \<open>feeOrDefault\<close> is the decimal that \<^verbatim>\<open>toBigNumber\<close> is given. The
  optional fee is \<open>None\<close> when the caller leaves it out (\<^verbatim>\<open>undefined\<close>); a falsy
  fee is replaced by the default and a truthy one is kept, whatever its value.
\<close>

definition feeOrDefault :: "js_value option \<Rightarrow> bignumber" where
  "feeOrDefault f =
     (case f of
        None \<Rightarrow> DEFAULT_FEE
      | Some v \<Rightarrow> if truthy v then jsValue v else DEFAULT_FEE)"

definition getAmountOut :: "GetAmountOutParams \<Rightarrow> bignumber" where
  "getAmountOut params =
     (let amountIn' = removeDecimals (amountIn params) (decimalsIn params);
          reserveIn' = toBigNumber (reserveIn params);
          reserveOut' = toBigNumber (reserveOut params);
          fee' = toBigNumber (feeOrDefault (fee params))
      in if isZero amountIn' then toBigNumber (Fin 0)
         else
           let amountInWithFee = multipliedBy amountIn' (minus (toBigNumber (Fin 1)) fee');
               numerator = multipliedBy amountInWithFee reserveOut';
               denominator = plus reserveIn' amountInWithFee
           in applyDecimals (dividedBy numerator denominator) (decimalsOut params))"

record GetPriceImpactParams =
  amountIn_impact :: bignumber
  amountOut_impact :: bignumber
  priceIn :: bignumber
  priceOut :: bignumber

definition getByAmount :: "bignumber \<Rightarrow> bignumber \<Rightarrow> bignumber" where
  \<comment> \<open>Modelled from the spec: \<^verbatim>\<open>Price.getByAmount\<close> is not among the sources;
      \<^verbatim>\<open>valueOf(amount, price) = amount * price\<close>.\<close>
  "getByAmount amount price = multipliedBy (toBigNumber amount) (toBigNumber price)"

definition getPriceImpact :: "GetPriceImpactParams \<Rightarrow> bignumber" where
  "getPriceImpact params =
     (let amountIn' = toBigNumber (amountIn_impact params);
          amountOut' = toBigNumber (amountOut_impact params);
          priceIn' = toBigNumber (priceIn params);
          priceOut' = toBigNumber (priceOut params)
      in if isZero amountIn' \<or> isNaN amountIn' \<or> isZero amountOut' \<or> isNaN amountOut'
            \<or> isZero priceIn' \<or> isNaN priceIn' \<or> isZero priceOut' \<or> isNaN priceOut'
         then toBigNumber (Fin 0)
         else
           let amountOut'' = getByAmount amountOut' priceOut';
               amountIn'' = getByAmount amountIn' priceIn';
               priceImpact =
                 negated (multipliedBy (minus (Fin 1) (dividedBy amountOut'' amountIn'')) (Fin 100))
           in priceImpact)"

section \<open>Facts about the decimal library\<close>

lemma isqrt_bounds: "isqrt n * isqrt n \<le> n \<and> n < (isqrt n + 1) * (isqrt n + 1)"
proof (induction n rule: isqrt.induct)
  case (1 n)
  show ?case
  proof (cases "n < 2")
    case True
    then have "isqrt n = n" by (subst isqrt.simps) simp
    with True show ?thesis by auto
  next
    case False
    define s where "s = isqrt (n div 4)"
    define m where "m = n div 4"
    from 1 False have lo: "s * s \<le> m" and hi: "m < (s + 1) * (s + 1)"
      by (simp_all add: s_def m_def)
    have m4: "4 * m \<le> n" and m4': "n < 4 * m + 4" by (simp_all add: m_def)
    have e1: "(2 * s) * (2 * s) = 4 * (s * s)" by simp
    have e2: "(2 * s + 2) * (2 * s + 2) = 4 * ((s + 1) * (s + 1))" by (simp add: algebra_simps)
    have a: "(2 * s) * (2 * s) \<le> n" using lo m4 unfolding e1 by linarith
    have "m + 1 \<le> (s + 1) * (s + 1)" using hi by simp
    then have b: "n < (2 * s + 2) * (2 * s + 2)" using m4' unfolding e2 by linarith
    have e3: "(2 * s + 1 + 1) = 2 * s + 2" by simp
    show ?thesis
    proof (cases "(2 * s + 1) * (2 * s + 1) \<le> n")
      case True
      then have "isqrt n = 2 * s + 1" using False by (subst isqrt.simps) (simp add: s_def Let_def)
      then show ?thesis using True b by (simp add: e3)
    next
      case F2: False
      then have "isqrt n = 2 * s" using False by (subst isqrt.simps) (simp add: s_def Let_def)
      then show ?thesis using F2 a by (simp only:) simp
    qed
  qed
qed

lemma isqrt_unique:
  assumes "r * r \<le> n" and "n < (r + 1) * (r + 1)"
  shows "isqrt n = r"
proof (rule ccontr)
  assume ne: "isqrt n \<noteq> r"
  let ?s = "isqrt n"
  from isqrt_bounds [of n] have s1: "?s * ?s \<le> n" and s2: "n < (?s + 1) * (?s + 1)" by auto
  from ne consider "?s + 1 \<le> r" | "r + 1 \<le> ?s" by linarith
  then show False
  proof cases
    case 1
    have "(?s + 1) * (?s + 1) \<le> r * r" by (rule mult_le_mono [OF 1 1])
    with s2 assms show False by linarith
  next
    case 2
    have "(r + 1) * (r + 1) \<le> ?s * ?s" by (rule mult_le_mono [OF 2 2])
    with s1 assms show False by linarith
  qed
qed

lemma floor_rat_numeral [simp]: "\<lfloor>numeral a / numeral b :: rat\<rfloor> = numeral a div numeral b"
  using floor_divide_of_int_eq [of "numeral a" "numeral b", where ?'a = rat] by simp

lemma floor_rat_neg_numeral [simp]:
  "\<lfloor>- (numeral a / numeral b) :: rat\<rfloor> = - numeral a div numeral b"
  using floor_divide_of_int_eq [of "- numeral a" "numeral b", where ?'a = rat] by simp

lemma half_up_of_int [simp]: "half_up (of_int k) = k"
  unfolding half_up_def by (auto) linarith+

lemma half_up_numeral [simp]: "half_up (numeral k) = numeral k"
  using half_up_of_int [of "numeral k"] by simp

lemma half_up_neg_numeral [simp]: "half_up (- numeral k) = - numeral k"
  using half_up_of_int [of "- numeral k"] by simp

lemma half_up_mono: "x \<le> y \<Longrightarrow> half_up x \<le> half_up y"
  unfolding half_up_def by (auto intro: floor_mono) linarith+

lemma half_up_le: "of_int (half_up x) \<le> x + 1 / 2"
  unfolding half_up_def by (auto) linarith+

lemma round_half_up_mono:
  "x \<le> y \<Longrightarrow> round_rat ROUND_HALF_UP n x \<le> round_rat ROUND_HALF_UP n y"
  unfolding round_rat_def
  by (simp add: divide_right_mono half_up_mono mult_right_mono)

lemma round_half_up_le: "round_rat ROUND_HALF_UP n x \<le> x + 1 / (2 * 10 ^ n)"
proof -
  have "of_int (half_up (x * 10 ^ n)) / 10 ^ n \<le> (x * 10 ^ n + 1 / 2) / (10 ^ n :: rat)"
    by (rule divide_right_mono [OF half_up_le]) simp
  also have "\<dots> = x + 1 / (2 * 10 ^ n)"
    by (simp add: field_simps)
  finally show ?thesis by (simp add: round_rat_def)
qed

lemma round_half_up_grid:
  "round_rat ROUND_HALF_UP n (of_int k / 10 ^ n) = of_int k / 10 ^ n"
  by (simp add: round_rat_def)

lemma round_half_up_int: "round_rat ROUND_HALF_UP n (of_int k) = of_int k"
proof -
  have "(of_int k :: rat) = of_int (k * 10 ^ n) / 10 ^ n" by simp
  then show ?thesis using round_half_up_grid [of n "k * 10 ^ n"] by (simp only:)
qed

lemma round_half_up_0 [simp]: "round_rat ROUND_HALF_UP n 0 = 0"
  using round_half_up_int [of n 0] by simp

lemma round_half_up_1 [simp]: "round_rat ROUND_HALF_UP n 1 = 1"
  using round_half_up_int [of n 1] by simp

section \<open>The liquidity engine\<close>

text \<open>
  C9. For all decimals \<open>d0\<close> and \<open>d1\<close> between 0 and 18,
  \<^verbatim>\<open>getPairDecimals(d0, d1)\<close> is the floor of \<open>(d0 + d1) / 2\<close>: the division by two
  is exact within twenty decimal places, and \<^verbatim>\<open>dp(0, ROUND_FLOOR)\<close> floors it.
\<close>

theorem getPairDecimals_floor:
  assumes "d0 \<le> 18" and "d1 \<le> 18"
  shows "getPairDecimals d0 d1 = Fin (of_int \<lfloor>(of_nat d0 + of_nat d1) / (2 :: rat)\<rfloor>)"
proof -
  have "(of_nat d0 + of_nat d1) / (2 :: rat) = of_int (int (d0 + d1) * (5 * 10 ^ 19)) / 10 ^ 20"
    by simp
  then have r: "round_rat ROUND_HALF_UP 20 ((of_nat d0 + of_nat d1) / 2) = (of_nat d0 + of_nat d1) / 2"
    using round_half_up_grid [of 20 "int (d0 + d1) * (5 * 10 ^ 19)"] by (simp only:)
  have fl: "round_rat ROUND_FLOOR 0 x = of_int \<lfloor>x\<rfloor>" for x
    by (simp add: round_rat_def)
  show ?thesis
    by (simp add: getPairDecimals_def toBigNumber_def ROUNDING_MODE_def DECIMAL_PLACES_def r fl)
qed

theorem getPairDecimals_floor_witness:
  "(6::nat) \<le> 18 \<and> (9::nat) \<le> 18 \<and> getPairDecimals 6 9 = Fin 7"
  using getPairDecimals_floor [of 6 9] by simp

lemma isqrt_64: "isqrt 640000000000000000000000000000000000000000 = 800000000000000000000"
  by (rule isqrt_unique) simp_all

text \<open>
  C4. The first deposit of 2,000,000 and 8,000,000 raw units at 6 decimals into an empty pool
  (both reserves and the total supply zero) takes the desired amounts 2 and 8 as they are and
  mints \<open>sqrt (2 * 8) - 1000 = -996\<close>: no clamp at zero is applied.
\<close>

theorem getAddPosition_first_deposit:
  "getAddPosition
     \<lparr>token0Amount = Fin 2000000, token1Amount = Fin 8000000,
      token0Decimals = 6, token1Decimals = 6,
      reserve0 = Fin 0, reserve1 = Fin 0, totalSupply = Fin 0\<rparr> = Fin (- 996)"
  by (simp add: getAddPosition_def creditedAmounts_def removeDecimals_def toBigNumber_def
      MINIMUM_LIQUIDITY_def exponential_def minus_def dp_def ROUNDING_MODE_def round_rat_def
      DECIMAL_PLACES_def isqrt_64)







text \<open>Scenario B of the specification: a deposit in the ratio of the reserves.\<close>

lemma getAddPosition_proportional_deposit:
  "getAddPosition \<lparr>token0Amount = Fin 10, token1Amount = Fin 20, token0Decimals = 0,
      token1Decimals = 0, reserve0 = Fin 100, reserve1 = Fin 200, totalSupply = Fin 50\<rparr> = Fin 5"
  by (simp add: getAddPosition_def creditedAmounts_def removeDecimals_def toBigNumber_def
      min_bn_def dp_def ROUNDING_MODE_def round_rat_def DECIMAL_PLACES_def)

text \<open>
  C8. \<^verbatim>\<open>getAddPercentage\<close> returns exactly 1 whenever the total supply is zero, and
  otherwise \<open>lp / (lp + totalSupply)\<close> for \<open>lp\<close> the result of
  \<^verbatim>\<open>getAddPosition\<close> on the same parameters.
\<close>

theorem getAddPercentage_cases:
  "(isZero (totalSupply p) \<longrightarrow> getAddPercentage p = Fin 1)
   \<and> (\<not> isZero (totalSupply p) \<longrightarrow>
        getAddPercentage p =
          dividedBy (getAddPosition p) (plus (getAddPosition p) (toBigNumber (totalSupply p))))"
  by (simp add: getAddPercentage_def Let_def toBigNumber_def)

theorem getAddPercentage_cases_witness:
  "isZero (totalSupply \<lparr>token0Amount = Fin 2000000, token1Amount = Fin 8000000,
      token0Decimals = 6, token1Decimals = 6,
      reserve0 = Fin 0, reserve1 = Fin 0, totalSupply = Fin 0\<rparr>)
   \<and> getAddPercentage \<lparr>token0Amount = Fin 2000000, token1Amount = Fin 8000000,
      token0Decimals = 6, token1Decimals = 6,
      reserve0 = Fin 0, reserve1 = Fin 0, totalSupply = Fin 0\<rparr> = Fin 1
   \<and> \<not> isZero (totalSupply \<lparr>token0Amount = Fin 10, token1Amount = Fin 20, token0Decimals = 0,
      token1Decimals = 0, reserve0 = Fin 100, reserve1 = Fin 200, totalSupply = Fin 50\<rparr>)
   \<and> getAddPercentage \<lparr>token0Amount = Fin 10, token1Amount = Fin 20, token0Decimals = 0,
      token1Decimals = 0, reserve0 = Fin 100, reserve1 = Fin 200, totalSupply = Fin 50\<rparr>
      = Fin (9090909090909090909 / 10 ^ 20)"
  using getAddPercentage_cases [of "\<lparr>token0Amount = Fin 2000000, token1Amount = Fin 8000000,
      token0Decimals = 6, token1Decimals = 6,
      reserve0 = Fin 0, reserve1 = Fin 0, totalSupply = Fin 0\<rparr>"]
    getAddPercentage_cases [of "\<lparr>token0Amount = Fin 10, token1Amount = Fin 20, token0Decimals = 0,
      token1Decimals = 0, reserve0 = Fin 100, reserve1 = Fin 200, totalSupply = Fin 50\<rparr>"]
  by (simp add: getAddPosition_proportional_deposit toBigNumber_def ROUNDING_MODE_def round_rat_def DECIMAL_PLACES_def half_up_def)

text \<open>
  The token0 balance of one LP balance, for a pair with finite reserve and non-zero finite
  total supply: the share is rounded to twenty decimal places and the product to the nearest
  integer.
\<close>

lemma token0_balance:
  assumes "reserve0_pair pair = Fin r0" and "totalSupply_pair pair = Fin ts" and "ts \<noteq> 0"
  shows "token0 (getTokenBalances pair (Fin l)) =
         Fin (of_int (half_up (r0 * round_rat ROUND_HALF_UP 20 (l / ts))))"
  using assms
  by (simp add: getTokenBalances_def toBigNumber_def dp_def ROUNDING_MODE_def DECIMAL_PLACES_def
      Let_def) (simp add: round_rat_def)

lemma token0_balance_le:
  fixes r0 ts l :: rat
  assumes "0 \<le> r0"
  shows "of_int (half_up (r0 * round_rat ROUND_HALF_UP 20 (l / ts)))
         \<le> r0 * (l / ts) + (1 / 2 + r0 / (2 * 10 ^ 20))"
proof -
  have "of_int (half_up (r0 * round_rat ROUND_HALF_UP 20 (l / ts)))
        \<le> r0 * round_rat ROUND_HALF_UP 20 (l / ts) + 1 / 2"
    by (rule half_up_le)
  also have "r0 * round_rat ROUND_HALF_UP 20 (l / ts) \<le> r0 * (l / ts + 1 / (2 * 10 ^ 20))"
    using assms by (intro mult_left_mono round_half_up_le)
  finally show ?thesis by (simp add: algebra_simps)
qed

lemma token0Total_le:
  assumes "reserve0_pair pair = Fin r0" and "0 \<le> r0"
    and "totalSupply_pair pair = Fin ts" and "ts \<noteq> 0"
  shows "\<exists>s. token0Total pair (map Fin ls) = Fin s
           \<and> s \<le> r0 * (sum_list ls / ts) + of_nat (length ls) * (1 / 2 + r0 / (2 * 10 ^ 20))"
proof (induction ls)
  case Nil
  show ?case by simp
next
  case (Cons l ls)
  then obtain s where s: "token0Total pair (map Fin ls) = Fin s"
    and le: "s \<le> r0 * (sum_list ls / ts) + of_nat (length ls) * (1 / 2 + r0 / (2 * 10 ^ 20))"
    by blast
  let ?b = "of_int (half_up (r0 * round_rat ROUND_HALF_UP 20 (l / ts))) :: rat"
  have tot: "token0Total pair (map Fin (l # ls)) = Fin (?b + s)"
    by (simp add: token0_balance [OF assms(1,3,4)] s)
  have "?b + s \<le> (r0 * (l / ts) + (1 / 2 + r0 / (2 * 10 ^ 20)))
      + (r0 * (sum_list ls / ts) + of_nat (length ls) * (1 / 2 + r0 / (2 * 10 ^ 20)))"
    by (rule add_mono [OF token0_balance_le [OF assms(2)] le])
  also have "\<dots> = r0 * (sum_list (l # ls) / ts)
      + of_nat (length (l # ls)) * (1 / 2 + r0 / (2 * 10 ^ 20))"
    by (simp add: algebra_simps add_divide_distrib)
  finally show ?case using tot by blast
qed

text \<open>
  C1, as the code has it. \<^verbatim>\<open>getTokenBalances\<close> rounds each token balance with
  \<^verbatim>\<open>dp(0)\<close>, that is to the nearest integer with ties away from zero, not down. For a
  pair with non-negative \<open>reserve0\<close> and positive \<open>totalSupply\<close> and \<open>n\<close> LP balances
  whose sum is at most \<open>totalSupply\<close>, the token0 balances add up to at most
  \<open>reserve0 + n * (1 / 2 + reserve0 / (2 * 10 ^ 20))\<close>.
\<close>

theorem token0Total_bound:
  assumes "reserve0_pair pair = Fin r0" and "0 \<le> r0"
    and "totalSupply_pair pair = Fin ts" and "0 < ts"
    and "sum_list ls \<le> ts"
  shows "(\<forall>l. token0 (getTokenBalances pair (Fin l)) =
               Fin (of_int (half_up (r0 * round_rat ROUNDING_MODE DECIMAL_PLACES (l / ts)))))
         \<and> (\<exists>s. token0Total pair (map Fin ls) = Fin s
               \<and> s \<le> r0 + of_nat (length ls) * (1 / 2 + r0 / (2 * 10 ^ 20)))"
proof
  from assms(4) have nz: "ts \<noteq> 0" by simp
  show "\<forall>l. token0 (getTokenBalances pair (Fin l)) =
               Fin (of_int (half_up (r0 * round_rat ROUNDING_MODE DECIMAL_PLACES (l / ts))))"
    by (simp add: token0_balance [OF assms(1,3) nz] ROUNDING_MODE_def DECIMAL_PLACES_def)
  from token0Total_le [OF assms(1,2,3) nz, of ls] obtain s
    where s: "token0Total pair (map Fin ls) = Fin s"
      and le: "s \<le> r0 * (sum_list ls / ts) + of_nat (length ls) * (1 / 2 + r0 / (2 * 10 ^ 20))"
    by blast
  have "sum_list ls / ts \<le> 1" using assms(4,5) by (simp add: pos_divide_le_eq)
  then have "r0 * (sum_list ls / ts) \<le> r0 * 1" using assms(2) by (rule mult_left_mono)
  with le have "s \<le> r0 + of_nat (length ls) * (1 / 2 + r0 / (2 * 10 ^ 20))" by simp
  with s show "\<exists>s. token0Total pair (map Fin ls) = Fin s
               \<and> s \<le> r0 + of_nat (length ls) * (1 / 2 + r0 / (2 * 10 ^ 20))" by blast
qed

theorem token0Total_bound_witness:
  "(0::rat) \<le> 3 \<and> (0::rat) < 2 \<and> sum_list [1, 1 :: rat] \<le> 2
   \<and> token0 (getTokenBalances
                \<lparr>reserve0_pair = Fin 3, reserve1_pair = Fin 3, totalSupply_pair = Fin 2\<rparr> (Fin 1))
       = Fin 2
   \<and> token0Total \<lparr>reserve0_pair = Fin 3, reserve1_pair = Fin 3, totalSupply_pair = Fin 2\<rparr>
       (map Fin [1, 1]) = Fin 4
   \<and> (4::rat) \<le> 3 + of_nat (length [1, 1 :: rat]) * (1 / 2 + 3 / (2 * 10 ^ 20))"
  using token0Total_bound [of "\<lparr>reserve0_pair = Fin 3, reserve1_pair = Fin 3,
      totalSupply_pair = Fin 2\<rparr>" 3 2 "[1, 1]"]
  by (simp add: getTokenBalances_def toBigNumber_def dp_def ROUNDING_MODE_def DECIMAL_PLACES_def
      round_rat_def half_up_def)

text \<open>
  C1 as stated fails: with \<open>reserve0 = 3\<close>, \<open>totalSupply = 2\<close> and two holders of one
  LP token each, either holder is quoted \<open>3 * 0.5 = 1.5\<close> rounded to 2, and the two balances add
  up to 4, more than \<open>reserve0\<close>.
\<close>

theorem token0Total_counterexample:
  "\<not> isLessThanOrEqualTo
       (token0Total \<lparr>reserve0_pair = Fin 3, reserve1_pair = Fin 3, totalSupply_pair = Fin 2\<rparr>
          [Fin 1, Fin 1])
       (reserve0_pair \<lparr>reserve0_pair = Fin 3, reserve1_pair = Fin 3, totalSupply_pair = Fin 2\<rparr>)"
  by (simp add: getTokenBalances_def toBigNumber_def dp_def ROUNDING_MODE_def DECIMAL_PLACES_def
      round_rat_def half_up_def isLessThanOrEqualTo_def)


section \<open>The swap engine\<close>

text \<open>
  C6. \<^verbatim>\<open>getPriceImpact\<close> returns exactly 0 whenever one of its four inputs is zero
  or not a number, whatever the other inputs are.
\<close>

theorem getPriceImpact_guard:
  assumes "isZero (amountIn_impact p) \<or> isNaN (amountIn_impact p)
         \<or> isZero (amountOut_impact p) \<or> isNaN (amountOut_impact p)
         \<or> isZero (priceIn p) \<or> isNaN (priceIn p)
         \<or> isZero (priceOut p) \<or> isNaN (priceOut p)"
  shows "getPriceImpact p = Fin 0"
  using assms by (auto simp add: getPriceImpact_def toBigNumber_def Let_def)

theorem getPriceImpact_guard_witness:
  "(isZero (Fin 5) \<or> isNaN (Fin 5) \<or> isZero (Fin 4) \<or> isNaN (Fin 4)
    \<or> isZero NaN \<or> isNaN NaN \<or> isZero (Fin 0) \<or> isNaN (Fin 0))
   \<and> getPriceImpact \<lparr>amountIn_impact = Fin 5, amountOut_impact = Fin 4,
         priceIn = NaN, priceOut = Fin 0\<rparr> = Fin 0"
  using getPriceImpact_guard [of "\<lparr>amountIn_impact = Fin 5, amountOut_impact = Fin 4,
         priceIn = NaN, priceOut = Fin 0\<rparr>"]
  by simp

text \<open>
  C10, as the code has it. A call of \<^verbatim>\<open>getAmountOut\<close> whose fee is falsy (the number 0
  or \<^verbatim>\<open>NaN\<close>, the bigint \<^verbatim>\<open>0n\<close>, the empty string) returns what the same call
  returns with the fee 0.003, the amount after the fee being \<open>amountIn * 0.997\<close>. A zero fee
  given as the string \<^verbatim>\<open>'0'\<close> or as a \<^verbatim>\<open>BigNumber\<close> object is truthy and is kept:
  the swap is then computed with the whole \<open>amountIn\<close>.
\<close>

theorem getAmountOut_falsy_fee:
  assumes "\<not> truthy v"
  shows "getAmountOut (p\<lparr>fee := Some v\<rparr>)
           = getAmountOut (p\<lparr>fee := Some (JsNumber (Fin (3 / 1000)))\<rparr>)
         \<and> getAmountOut (p\<lparr>fee := Some v\<rparr>)
           = (let a = removeDecimals (amountIn p) (decimalsIn p);
                  w = multipliedBy a (Fin (997 / 1000))
              in if isZero a then Fin 0
                 else applyDecimals
                        (dividedBy (multipliedBy w (reserveOut p)) (plus (reserveIn p) w))
                        (decimalsOut p))
         \<and> getAmountOut (p\<lparr>fee := Some (JsString (Fin 0))\<rparr>)
           = getAmountOut (p\<lparr>fee := Some (JsBigNumber (Fin 0))\<rparr>)
         \<and> getAmountOut (p\<lparr>fee := Some (JsBigNumber (Fin 0))\<rparr>)
           = (let a = removeDecimals (amountIn p) (decimalsIn p);
                  w = multipliedBy a (Fin 1)
              in if isZero a then Fin 0
                 else applyDecimals
                        (dividedBy (multipliedBy w (reserveOut p)) (plus (reserveIn p) w))
                        (decimalsOut p))"
  using assms
  by (simp add: getAmountOut_def feeOrDefault_def DEFAULT_FEE_def Let_def toBigNumber_def
      minus_def)

theorem getAmountOut_falsy_fee_witness:
  "\<not> truthy (JsNumber (Fin 0))
   \<and> getAmountOut \<lparr>amountIn = Fin 1000, decimalsIn = 0, decimalsOut = 0,
        reserveIn = Fin 1000, reserveOut = Fin 1000, fee = Some (JsNumber (Fin 0))\<rparr> = Fin 499
   \<and> getAmountOut \<lparr>amountIn = Fin 1000, decimalsIn = 0, decimalsOut = 0,
        reserveIn = Fin 1000, reserveOut = Fin 1000, fee = Some (JsNumber (Fin (3 / 1000)))\<rparr>
      = Fin 499
   \<and> getAmountOut \<lparr>amountIn = Fin 1000, decimalsIn = 0, decimalsOut = 0,
        reserveIn = Fin 1000, reserveOut = Fin 1000, fee = Some (JsBigNumber (Fin 0))\<rparr> = Fin 500"
proof -
  have f: "\<not> truthy (JsNumber (Fin 0))" by simp
  show ?thesis
    using f getAmountOut_falsy_fee [OF f, of "\<lparr>amountIn = Fin 1000, decimalsIn = 0,
        decimalsOut = 0, reserveIn = Fin 1000, reserveOut = Fin 1000, fee = None\<rparr>"]
    by (simp add: getAmountOut_def feeOrDefault_def DEFAULT_FEE_def minus_def Let_def
        removeDecimals_def applyDecimals_def exponential_def toBigNumber_def
        dp_def ROUNDING_MODE_def DECIMAL_PLACES_def round_rat_def half_up_def)
qed

text \<open>
  C10 as stated fails: 1000 into reserves of 1000 and 1000 with the fee \<^verbatim>\<open>'0'\<close> or
  \<^verbatim>\<open>new BigNumber(0)\<close> returns 500, a swap free of fee, and 499 with the fee 0.003.
\<close>

theorem getAmountOut_zero_fee_counterexample:
  "getAmountOut \<lparr>amountIn = Fin 1000, decimalsIn = 0, decimalsOut = 0,
      reserveIn = Fin 1000, reserveOut = Fin 1000, fee = Some (JsString (Fin 0))\<rparr> = Fin 500
   \<and> getAmountOut \<lparr>amountIn = Fin 1000, decimalsIn = 0, decimalsOut = 0,
      reserveIn = Fin 1000, reserveOut = Fin 1000, fee = Some (JsBigNumber (Fin 0))\<rparr> = Fin 500
   \<and> getAmountOut \<lparr>amountIn = Fin 1000, decimalsIn = 0, decimalsOut = 0,
      reserveIn = Fin 1000, reserveOut = Fin 1000, fee = Some (JsNumber (Fin (3 / 1000)))\<rparr>
     = Fin 499
   \<and> getAmountOut \<lparr>amountIn = Fin 1000, decimalsIn = 0, decimalsOut = 0,
      reserveIn = Fin 1000, reserveOut = Fin 1000, fee = Some (JsString (Fin 0))\<rparr>
     \<noteq> getAmountOut \<lparr>amountIn = Fin 1000, decimalsIn = 0, decimalsOut = 0,
      reserveIn = Fin 1000, reserveOut = Fin 1000, fee = Some (JsNumber (Fin (3 / 1000)))\<rparr>"
  by (simp add: getAmountOut_def removeDecimals_def applyDecimals_def exponential_def
      feeOrDefault_def DEFAULT_FEE_def minus_def toBigNumber_def dp_def ROUNDING_MODE_def
      DECIMAL_PLACES_def round_rat_def half_up_def)

text \<open>
  The value of \<^verbatim>\<open>getAmountOut\<close> on finite arguments, when the denominator is not zero:
  the quotient is rounded to twenty decimal places, scaled by \<open>10 ^ decimalsOut\<close> and rounded
  to an integer. The early return for a zero amount agrees with it.
\<close>

lemma getAmountOut_finite:
  assumes "amountIn p = Fin a" and "reserveIn p = Fin ri" and "reserveOut p = Fin ro"
    and "feeOrDefault (fee p) = Fin f"
    and "ri + a / 10 ^ decimalsIn p * (1 - f) \<noteq> 0"
  shows "getAmountOut p =
         Fin (round_rat ROUND_HALF_UP 0
               (round_rat ROUND_HALF_UP 20
                  (a / 10 ^ decimalsIn p * (1 - f) * ro / (ri + a / 10 ^ decimalsIn p * (1 - f)))
                * 10 ^ decimalsOut p))"
  using assms
  by (simp add: getAmountOut_def removeDecimals_def applyDecimals_def exponential_def
      toBigNumber_def minus_def dp_def ROUNDING_MODE_def DECIMAL_PLACES_def Let_def)

lemma swap_quotient_mono:
  fixes x y ri ro :: rat
  assumes "0 \<le> x" and "x \<le> y" and "0 < ri" and "0 \<le> ro"
  shows "x * ro / (ri + x) \<le> y * ro / (ri + y)"
proof -
  have px: "0 < ri + x" and py: "0 < ri + y" using assms by linarith+
  have "x * (ri + y) \<le> y * (ri + x)"
    using assms by (simp add: algebra_simps)
  then have "x * (ri + y) * ro \<le> y * (ri + x) * ro"
    using assms(4) by (rule mult_right_mono)
  then have "(x * ro) * (ri + y) \<le> (y * ro) * (ri + x)"
    by (simp add: mult_ac)
  then show ?thesis
    using px py by (simp add: frac_le_eq divide_le_0_iff) 
qed

lemma swap_quotient_le:
  fixes x ri ro :: rat
  assumes "0 \<le> x" and "0 < ri" and "0 \<le> ro"
  shows "x * ro / (ri + x) \<le> ro"
proof -
  have px: "0 < ri + x" using assms by linarith
  have "x * ro \<le> ro * (ri + x)"
    using assms by (simp add: algebra_simps)
  then show ?thesis using px by (simp add: pos_divide_le_eq)
qed

text \<open>
  C2, as the code has it. For a positive \<open>amountIn\<close>, positive reserves and a fee in effect
  of at most 1, \<^verbatim>\<open>getAmountOut\<close> returns at most
  \<^verbatim>\<open>applyDecimals(reserveOut.dp(20), decimalsOut)\<close>: the output reserve in raw units of
  the output token. The bound can be attained.
\<close>

theorem getAmountOut_bound:
  assumes "amountIn p = Fin a" and "0 < a"
    and "reserveIn p = Fin ri" and "0 < ri"
    and "reserveOut p = Fin ro" and "0 < ro"
    and "feeOrDefault (fee p) = Fin f" and "f \<le> 1"
  shows "isLessThanOrEqualTo (getAmountOut p)
           (applyDecimals (dp (reserveOut p) DECIMAL_PLACES) (decimalsOut p))"
proof -
  define x where "x = a / 10 ^ decimalsIn p * (1 - f)"
  have x0: "0 \<le> x" using assms(2,8) by (simp add: x_def)
  then have nz: "ri + a / 10 ^ decimalsIn p * (1 - f) \<noteq> 0"
    using assms(4) by (simp add: x_def)
  have out: "getAmountOut p =
      Fin (round_rat ROUND_HALF_UP 0
             (round_rat ROUND_HALF_UP 20 (x * ro / (ri + x)) * 10 ^ decimalsOut p))"
    using getAmountOut_finite [OF assms(1,3,5,7) nz] by (simp add: x_def)
  have bound: "applyDecimals (dp (reserveOut p) DECIMAL_PLACES) (decimalsOut p) =
      Fin (round_rat ROUND_HALF_UP 0 (round_rat ROUND_HALF_UP 20 ro * 10 ^ decimalsOut p))"
    by (simp add: assms(5) applyDecimals_def dp_def exponential_def toBigNumber_def
        ROUNDING_MODE_def DECIMAL_PLACES_def)
  have "x * ro / (ri + x) \<le> ro"
    using x0 assms(4,6) by (intro swap_quotient_le) simp_all
  then have "round_rat ROUND_HALF_UP 20 (x * ro / (ri + x)) \<le> round_rat ROUND_HALF_UP 20 ro"
    by (rule round_half_up_mono)
  then have "round_rat ROUND_HALF_UP 20 (x * ro / (ri + x)) * 10 ^ decimalsOut p
      \<le> round_rat ROUND_HALF_UP 20 ro * 10 ^ decimalsOut p"
    by (rule mult_right_mono) simp
  then have "round_rat ROUND_HALF_UP 0
               (round_rat ROUND_HALF_UP 20 (x * ro / (ri + x)) * 10 ^ decimalsOut p)
      \<le> round_rat ROUND_HALF_UP 0 (round_rat ROUND_HALF_UP 20 ro * 10 ^ decimalsOut p)"
    by (rule round_half_up_mono)
  then show ?thesis
    unfolding out bound by (simp add: isLessThanOrEqualTo_def)
qed

theorem getAmountOut_bound_witness:
  "amountIn \<lparr>amountIn = Fin 1000000, decimalsIn = 0, decimalsOut = 0,
              reserveIn = Fin 1, reserveOut = Fin 1, fee = None\<rparr> = Fin 1000000
   \<and> (0::rat) < 1000000 \<and> (0::rat) < 1
   \<and> feeOrDefault None = Fin (3 / 1000) \<and> (3 / 1000 :: rat) \<le> 1
   \<and> isLessThanOrEqualTo
        (getAmountOut \<lparr>amountIn = Fin 1000000, decimalsIn = 0, decimalsOut = 0,
              reserveIn = Fin 1, reserveOut = Fin 1, fee = None\<rparr>)
        (Fin 1)"
  using getAmountOut_bound [of "\<lparr>amountIn = Fin 1000000, decimalsIn = 0, decimalsOut = 0,
              reserveIn = Fin 1, reserveOut = Fin 1, fee = None\<rparr>" 1000000 1 1 "3 / 1000"]
  by (simp add: feeOrDefault_def DEFAULT_FEE_def applyDecimals_def dp_def exponential_def
      toBigNumber_def ROUNDING_MODE_def DECIMAL_PLACES_def)

text \<open>
  C2 as stated fails in three ways. The result is in raw units of the output token, so with
  \<open>decimalsOut = 6\<close> a swap of 100 into reserves of 1000 and 1000 returns 90661089, above
  the reserve 1000. The roundings can return the whole reserve: \<open>10 ^ 30\<close> into reserves
  of 1 and 1 returns 1. A fee above 1 makes the amount after the fee negative: with the fee 2,
  an amount of 3 into reserves of 1 and 2 returns 3.
\<close>

theorem getAmountOut_reserve_counterexample:
  "\<not> isLessThan
       (getAmountOut \<lparr>amountIn = Fin 100, decimalsIn = 0, decimalsOut = 6,
                      reserveIn = Fin 1000, reserveOut = Fin 1000, fee = None\<rparr>)
       (Fin 1000)
   \<and> \<not> isLessThan
       (getAmountOut \<lparr>amountIn = Fin (10 ^ 30), decimalsIn = 0, decimalsOut = 0,
                      reserveIn = Fin 1, reserveOut = Fin 1, fee = None\<rparr>)
       (Fin 1)
   \<and> \<not> isLessThan
       (getAmountOut \<lparr>amountIn = Fin 3, decimalsIn = 0, decimalsOut = 0,
                      reserveIn = Fin 1, reserveOut = Fin 2, fee = Some (JsNumber (Fin 2))\<rparr>)
       (Fin 2)"
  by (simp add: getAmountOut_def removeDecimals_def applyDecimals_def exponential_def
      feeOrDefault_def DEFAULT_FEE_def minus_def toBigNumber_def dp_def ROUNDING_MODE_def
      DECIMAL_PLACES_def round_rat_def half_up_def isLessThan_def)

text \<open>
  C3, as the code has it. For fixed positive reserves, fixed decimals and a fee in effect in
  \<open>[0, 1)\<close>, \<^verbatim>\<open>getAmountOut\<close> is monotone in \<open>amountIn\<close>: for all amounts
  \<open>0 \<le> a \<le> b\<close> the result for \<open>a\<close> is at most the result for \<open>b\<close>.
\<close>

theorem getAmountOut_mono:
  assumes "0 \<le> a" and "a \<le> b"
    and "reserveIn p = Fin ri" and "0 < ri"
    and "reserveOut p = Fin ro" and "0 < ro"
    and "feeOrDefault (fee p) = Fin f" and "0 \<le> f" and "f < 1"
  shows "isLessThanOrEqualTo (getAmountOut (p\<lparr>amountIn := Fin a\<rparr>))
           (getAmountOut (p\<lparr>amountIn := Fin b\<rparr>))"
proof -
  define x where "x = a / 10 ^ decimalsIn p * (1 - f)"
  define y where "y = b / 10 ^ decimalsIn p * (1 - f)"
  have x0: "0 \<le> x" using assms(1,9) by (simp add: x_def)
  have "a / 10 ^ decimalsIn p \<le> b / 10 ^ decimalsIn p"
    using assms(2) by (simp add: divide_right_mono)
  then have xy: "x \<le> y"
    unfolding x_def y_def using assms(9) by (intro mult_right_mono) simp_all
  have outa: "getAmountOut (p\<lparr>amountIn := Fin a\<rparr>) =
      Fin (round_rat ROUND_HALF_UP 0
             (round_rat ROUND_HALF_UP 20 (x * ro / (ri + x)) * 10 ^ decimalsOut p))"
    using getAmountOut_finite [of "p\<lparr>amountIn := Fin a\<rparr>" a ri ro f] assms(3,4,5,7) x0
    by (simp add: x_def)
  have outb: "getAmountOut (p\<lparr>amountIn := Fin b\<rparr>) =
      Fin (round_rat ROUND_HALF_UP 0
             (round_rat ROUND_HALF_UP 20 (y * ro / (ri + y)) * 10 ^ decimalsOut p))"
    using getAmountOut_finite [of "p\<lparr>amountIn := Fin b\<rparr>" b ri ro f] assms(3,4,5,7) x0 xy
    by (simp add: y_def)
  have "x * ro / (ri + x) \<le> y * ro / (ri + y)"
    using x0 xy assms(4,6) by (intro swap_quotient_mono) simp_all
  then have "round_rat ROUND_HALF_UP 20 (x * ro / (ri + x))
      \<le> round_rat ROUND_HALF_UP 20 (y * ro / (ri + y))"
    by (rule round_half_up_mono)
  then have "round_rat ROUND_HALF_UP 20 (x * ro / (ri + x)) * 10 ^ decimalsOut p
      \<le> round_rat ROUND_HALF_UP 20 (y * ro / (ri + y)) * 10 ^ decimalsOut p"
    by (rule mult_right_mono) simp
  then have "round_rat ROUND_HALF_UP 0
               (round_rat ROUND_HALF_UP 20 (x * ro / (ri + x)) * 10 ^ decimalsOut p)
      \<le> round_rat ROUND_HALF_UP 0
               (round_rat ROUND_HALF_UP 20 (y * ro / (ri + y)) * 10 ^ decimalsOut p)"
    by (rule round_half_up_mono)
  then show ?thesis
    unfolding outa outb by (simp add: isLessThanOrEqualTo_def)
qed

theorem getAmountOut_mono_witness:
  "(0::rat) \<le> 1 \<and> (1::rat) \<le> 2 \<and> (0::rat) < 1000 \<and> (0::rat) < 1
   \<and> feeOrDefault None = Fin (3 / 1000) \<and> (0::rat) \<le> 3 / 1000 \<and> (3 / 1000 :: rat) < 1
   \<and> isLessThanOrEqualTo
        (getAmountOut \<lparr>amountIn = Fin 1, decimalsIn = 0, decimalsOut = 0,
              reserveIn = Fin 1000, reserveOut = Fin 1, fee = None\<rparr>)
        (getAmountOut \<lparr>amountIn = Fin 2, decimalsIn = 0, decimalsOut = 0,
              reserveIn = Fin 1000, reserveOut = Fin 1, fee = None\<rparr>)"
  using getAmountOut_mono [of 1 2 "\<lparr>amountIn = Fin 1, decimalsIn = 0, decimalsOut = 0,
              reserveIn = Fin 1000, reserveOut = Fin 1, fee = None\<rparr>" 1000 1 "3 / 1000"]
  by (simp add: feeOrDefault_def DEFAULT_FEE_def)

text \<open>
  C3 as stated fails: the roundings make \<^verbatim>\<open>getAmountOut\<close> constant over ranges of
  \<open>amountIn\<close>. Into reserves of 1000 and 1, with no decimals, the amounts 1 and 2 both
  return 0; into reserves of 1 and 1, the amounts \<open>10 ^ 30\<close> and \<open>10 ^ 30 + 1\<close> both
  return 1, their quotients being equal within twenty decimal places.
\<close>

theorem getAmountOut_strict_counterexample:
  "(1::rat) < 2
   \<and> \<not> isLessThan
       (getAmountOut \<lparr>amountIn = Fin 1, decimalsIn = 0, decimalsOut = 0,
                      reserveIn = Fin 1000, reserveOut = Fin 1, fee = None\<rparr>)
       (getAmountOut \<lparr>amountIn = Fin 2, decimalsIn = 0, decimalsOut = 0,
                      reserveIn = Fin 1000, reserveOut = Fin 1, fee = None\<rparr>)
   \<and> (10 ^ 30 :: rat) < 10 ^ 30 + 1
   \<and> \<not> isLessThan
       (getAmountOut \<lparr>amountIn = Fin (10 ^ 30), decimalsIn = 0, decimalsOut = 0,
                      reserveIn = Fin 1, reserveOut = Fin 1, fee = None\<rparr>)
       (getAmountOut \<lparr>amountIn = Fin (10 ^ 30 + 1), decimalsIn = 0, decimalsOut = 0,
                      reserveIn = Fin 1, reserveOut = Fin 1, fee = None\<rparr>)"
  by (simp add: getAmountOut_def removeDecimals_def applyDecimals_def exponential_def
      feeOrDefault_def DEFAULT_FEE_def minus_def toBigNumber_def dp_def ROUNDING_MODE_def
      DECIMAL_PLACES_def round_rat_def half_up_def isLessThan_def)

text \<open>
  C7, as the code has it. For finite non-zero inputs \<^verbatim>\<open>getPriceImpact\<close> returns
  \<open>- (1 - q) * 100\<close>, where \<open>q\<close> is \<open>(amountOut * priceOut) / (amountIn * priceIn)\<close>
  rounded to twenty decimal places. The result is strictly negative exactly when \<open>q < 1\<close>;
  when \<open>amountIn * priceIn\<close> is positive, this implies
  \<open>amountOut * priceOut < amountIn * priceIn\<close>.
\<close>

theorem getPriceImpact_formula:
  assumes "amountIn_impact p = Fin a_in" and "a_in \<noteq> 0"
    and "amountOut_impact p = Fin a_out" and "a_out \<noteq> 0"
    and "priceIn p = Fin p_in" and "p_in \<noteq> 0"
    and "priceOut p = Fin p_out" and "p_out \<noteq> 0"
    and "q = round_rat ROUNDING_MODE DECIMAL_PLACES ((a_out * p_out) / (a_in * p_in))"
  shows "getPriceImpact p = Fin (- ((1 - q) * 100))
         \<and> (isLessThan (getPriceImpact p) (Fin 0) \<longleftrightarrow> q < 1)
         \<and> (0 < a_in * p_in \<longrightarrow> q < 1 \<longrightarrow> a_out * p_out < a_in * p_in)"
proof -
  have val: "getPriceImpact p = Fin (- ((1 - q) * 100))"
    using assms
    by (simp add: getPriceImpact_def getByAmount_def toBigNumber_def minus_def Let_def)
  have sign: "isLessThan (getPriceImpact p) (Fin 0) \<longleftrightarrow> q < 1"
    unfolding val by (simp add: isLessThan_def not_le)
  have "a_out * p_out < a_in * p_in" if pos: "0 < a_in * p_in" and q1: "q < 1"
  proof (rule ccontr)
    assume "\<not> a_out * p_out < a_in * p_in"
    then have "1 \<le> (a_out * p_out) / (a_in * p_in)"
      using pos by (simp add: pos_le_divide_eq)
    then have "round_rat ROUND_HALF_UP 20 1 \<le> round_rat ROUND_HALF_UP 20 ((a_out * p_out) / (a_in * p_in))"
      by (rule round_half_up_mono)
    then have "1 \<le> q" by (simp add: assms(9) ROUNDING_MODE_def DECIMAL_PLACES_def)
    with q1 show False by simp
  qed
  with val sign show ?thesis by blast
qed

theorem getPriceImpact_formula_witness:
  "(100::rat) \<noteq> 0 \<and> (90::rat) \<noteq> 0 \<and> (1::rat) \<noteq> 0
   \<and> (9 / 10 :: rat) = round_rat ROUNDING_MODE DECIMAL_PLACES ((90 * 1) / (100 * 1))
   \<and> getPriceImpact \<lparr>amountIn_impact = Fin 100, amountOut_impact = Fin 90,
        priceIn = Fin 1, priceOut = Fin 1\<rparr> = Fin (- 10)
   \<and> isLessThan (getPriceImpact \<lparr>amountIn_impact = Fin 100, amountOut_impact = Fin 90,
        priceIn = Fin 1, priceOut = Fin 1\<rparr>) (Fin 0)
   \<and> (0::rat) < 100 * 1 \<and> (9 / 10 :: rat) < 1 \<and> (90 * 1 :: rat) < 100 * 1"
proof -
  have q: "(9 / 10 :: rat) = round_rat ROUNDING_MODE DECIMAL_PLACES ((90 * 1) / (100 * 1))"
    by (simp add: ROUNDING_MODE_def DECIMAL_PLACES_def round_rat_def half_up_def)
  show ?thesis
    using q getPriceImpact_formula [of "\<lparr>amountIn_impact = Fin 100, amountOut_impact = Fin 90,
        priceIn = Fin 1, priceOut = Fin 1\<rparr>" 100 90 1 1 "9 / 10"]
    by (simp add: isLessThan_def)
qed

text \<open>
  C7 as stated fails: for \<open>amountIn = 10 ^ 23\<close> and \<open>amountOut = 10 ^ 23 - 1\<close> at
  prices 1 the value out is strictly less than the value in, the quotient rounds to 1, and the
  result is 0: neither strictly negative nor the exact \<open>- (1 - valueOut / valueIn) * 100\<close>.
\<close>

theorem getPriceImpact_sign_counterexample:
  "(10 ^ 23 - 1) * 1 < (10 ^ 23 * 1 :: rat)
   \<and> \<not> isLessThan
         (getPriceImpact \<lparr>amountIn_impact = Fin (10 ^ 23), amountOut_impact = Fin (10 ^ 23 - 1),
            priceIn = Fin 1, priceOut = Fin 1\<rparr>)
         (Fin 0)
   \<and> getPriceImpact \<lparr>amountIn_impact = Fin (10 ^ 23), amountOut_impact = Fin (10 ^ 23 - 1),
            priceIn = Fin 1, priceOut = Fin 1\<rparr>
       \<noteq> Fin (- (1 - ((10 ^ 23 - 1) * 1) / (10 ^ 23 * 1)) * 100)"
  by (simp add: getPriceImpact_def getByAmount_def toBigNumber_def minus_def Let_def
      ROUNDING_MODE_def DECIMAL_PLACES_def round_rat_def half_up_def isLessThan_def)

end
